theory Spec2Isabelle
  imports Complex_Main
begin

section \<open>JavaScript values\<close>

text \<open>
  The values that travel through the watcher: what \<^verbatim>\<open>JSON.parse\<close> returns, plus
  \<^verbatim>\<open>undefined\<close>. An object is the list of its own properties in the order of the
  text; a later entry for a key overrides an earlier one, as in JavaScript.
\<close>

datatype jsval =
    Undefined
  | Null
  | Bool bool
  | Num real
  | Str string
  | Arr "jsval list"
  | Obj "(string \<times> jsval) list"

text \<open>What a statement of the source can throw.\<close>

type_synonym handler = nat

datatype error =
    SyntaxError
  | TypeError
  | Thrown handler

text \<open>JavaScript truthiness.\<close>

fun truthy :: "jsval \<Rightarrow> bool" where
  "truthy Undefined = False"
| "truthy Null = False"
| "truthy (Bool b) = b"
| "truthy (Num n) = (n \<noteq> 0)"
| "truthy (Str s) = (s \<noteq> [])"
| "truthy (Arr _) = True"
| "truthy (Obj _) = True"

text \<open>
  Reading a property whose name is not numeric and is none of the built-in
  properties of strings and arrays (the source reads \<^verbatim>\<open>type\<close>, \<^verbatim>\<open>payloads\<close>,
  \<^verbatim>\<open>events\<close>, \<^verbatim>\<open>event\<close>, \<^verbatim>\<open>state\<close>, \<^verbatim>\<open>devices\<close>): only an object can
  have it.
\<close>

fun get_prop :: "jsval \<Rightarrow> string \<Rightarrow> jsval" where
  "get_prop (Obj kvs) k = (case map_of (rev kvs) k of None \<Rightarrow> Undefined | Some v \<Rightarrow> v)"
| "get_prop _ k = Undefined"

text \<open>\<^verbatim>\<open>v.k\<close>: a TypeError on \<^verbatim>\<open>undefined\<close> and \<^verbatim>\<open>null\<close>.\<close>

fun dot :: "jsval \<Rightarrow> string \<Rightarrow> error + jsval" where
  "dot Undefined k = Inl TypeError"
| "dot Null k = Inl TypeError"
| "dot v k = Inr (get_prop v k)"

text \<open>\<^verbatim>\<open>v?.k\<close>: \<^verbatim>\<open>undefined\<close> on \<^verbatim>\<open>undefined\<close> and \<^verbatim>\<open>null\<close>; \<open>get_prop\<close> gives that already.\<close>

definition opt_dot :: "jsval \<Rightarrow> string \<Rightarrow> jsval" where
  "opt_dot v k = get_prop v k"

text \<open>
  \<^verbatim>\<open>v[0]\<close>: the first element of an array, the first character of a string, the
  property \<^verbatim>\<open>"0"\<close> of an object, \<^verbatim>\<open>undefined\<close> on a number or a boolean, a
  TypeError on \<^verbatim>\<open>undefined\<close> and \<^verbatim>\<open>null\<close>.
\<close>

fun index0 :: "jsval \<Rightarrow> error + jsval" where
  "index0 Undefined = Inl TypeError"
| "index0 Null = Inl TypeError"
| "index0 (Arr []) = Inr Undefined"
| "index0 (Arr (x # _)) = Inr x"
| "index0 (Str []) = Inr Undefined"
| "index0 (Str (c # _)) = Inr (Str [c])"
| "index0 (Obj kvs) = Inr (get_prop (Obj kvs) ''0'')"
| "index0 _ = Inr Undefined"

definition bindE :: "error + 'a \<Rightarrow> ('a \<Rightarrow> error + 'b) \<Rightarrow> error + 'b" where
  "bindE m f = (case m of Inl e \<Rightarrow> Inl e | Inr x \<Rightarrow> f x)"

text \<open>
  The property names every plain object inherits from \<^verbatim>\<open>Object.prototype\<close>: the
  operator \<^verbatim>\<open>in\<close> finds them in an object that has no such property of its own, and
  reading one gives a function (for \<^verbatim>\<open>__proto__\<close> the prototype itself), never
  \<^verbatim>\<open>undefined\<close>.
\<close>

definition Object_prototype_names :: "string list" where
  "Object_prototype_names =
     [''constructor'', ''__defineGetter__'', ''__defineSetter__'', ''hasOwnProperty'',
      ''__lookupGetter__'', ''__lookupSetter__'', ''isPrototypeOf'', ''propertyIsEnumerable'',
      ''toString'', ''valueOf'', ''__proto__'', ''toLocaleString'']"

definition inherited :: "string \<Rightarrow> bool" where
  "inherited k = (k \<in> set Object_prototype_names)"

text \<open>An argument of an emitted event: a value, or a realtime connection.\<close>

type_synonym ws = nat

datatype jsarg = JS jsval | Sock ws

section \<open>EventEmitter\<close>

text \<open>
  \<^verbatim>\<open>_events\<close> maps a name to one function or to a \<^verbatim>\<open>Set\<close> of functions. A function is
  known by its identity (a \<open>handler\<close>); a \<^verbatim>\<open>Set\<close> is the list of its members in
  insertion order, without repetition. The map holds the own properties of
  \<^verbatim>\<open>_events\<close>: the definitions below are the code for the event names that are not
  \<open>inherited\<close>, and no name the watcher emits is.

  A registered function is opaque: when called it returns or throws, which the
  parameter \<open>throws\<close> tells; it does not call back into the emitter.
\<close>

datatype listeners = Fn handler | SetL "handler list"

type_synonym events = "string \<rightharpoonup> listeners"

definition EventEmitter_new :: events where
  "EventEmitter_new = Map.empty"

text \<open>\<^verbatim>\<open>Set.prototype.add\<close>.\<close>

definition set_add :: "handler list \<Rightarrow> handler \<Rightarrow> handler list" where
  "set_add fs f = (if f \<in> set fs then fs else fs @ [f])"

text \<open>
  \<^verbatim>\<open>on(name, callback)\<close>, for a string and a function (anything else returns at
  once): a single function becomes a \<^verbatim>\<open>Set\<close> of it and the callback; everything
  else, a \<^verbatim>\<open>Set\<close> included, is overwritten by the callback.
\<close>

definition on :: "events \<Rightarrow> string \<Rightarrow> handler \<Rightarrow> events" where
  "on ev name callback =
     (case ev name of
        Some (Fn f) \<Rightarrow> ev(name \<mapsto> SetL (set_add [f] callback))
      | _ \<Rightarrow> ev(name \<mapsto> Fn callback))"


text \<open>
  \<^verbatim>\<open>Set.prototype.forEach\<close> with the callback \<^verbatim>\<open>func(...data)\<close>: the calls made, in
  order, and the exception that ended the iteration, if any.
\<close>

type_synonym throws = "handler \<Rightarrow> jsarg list \<Rightarrow> bool"

type_synonym call = "handler \<times> jsarg list"

fun forEach :: "throws \<Rightarrow> handler list \<Rightarrow> jsarg list \<Rightarrow> call list \<times> error option" where
  "forEach throws [] data = ([], None)"
| "forEach throws (f # fs) data =
     (if throws f data then ([(f, data)], Some (Thrown f))
      else (case forEach throws fs data of (cs, e) \<Rightarrow> ((f, data) # cs, e)))"

definition emit :: "throws \<Rightarrow> events \<Rightarrow> string \<Rightarrow> jsarg list \<Rightarrow> call list \<times> error option" where
  "emit throws ev name data =
     (case ev name of
        None \<Rightarrow> ([], None)
      | Some (Fn f) \<Rightarrow> ([(f, data)], if throws f data then Some (Thrown f) else None)
      | Some (SetL fs) \<Rightarrow> forEach throws fs data)"

text \<open>Registering a sequence of handlers, one \<^verbatim>\<open>on\<close> after the other.\<close>

definition on_all :: "events \<Rightarrow> string \<Rightarrow> handler list \<Rightarrow> events" where
  "on_all ev name hs = foldl (\<lambda>e h. on e name h) ev hs"

section \<open>Account/socket resolver\<close>

text \<open>
  The host module found by \<^verbatim>\<open>webpack.waitForModule\<close> (\<open>None\<close> when there is none):
  what \<^verbatim>\<open>getActiveSocketAndDevice()\<close> returns, reduced to \<^verbatim>\<open>socket.accountId\<close> and
  \<^verbatim>\<open>socket.socket\<close>, and the \<^verbatim>\<open>accounts\<close> object of \<^verbatim>\<open>__getLocalVars()\<close> as the
  list of its own entries in enumeration order (account ids, none of them
  \<^verbatim>\<open>__proto__\<close>). A connection is known by its identity.
\<close>

record account =
  accessToken :: string
  acc_socket :: ws

record store =
  activeSocketAndDevice :: "(string \<times> ws) option"
  accounts :: "(string \<times> account) list"

text \<open>The property key an optional account id is coerced to by \<^verbatim>\<open>in\<close> and \<^verbatim>\<open>[]\<close>.\<close>

definition property_key :: "string option \<Rightarrow> string" where
  "property_key accountId = (case accountId of None \<Rightarrow> ''undefined'' | Some k \<Rightarrow> k)"

text \<open>
  \<^verbatim>\<open>getSpotifySocket\<close>. Method II tests \<^verbatim>\<open>accountId in accounts\<close>, which also holds for
  an inherited name: then \<^verbatim>\<open>accounts[accountId]\<close> is a function or the prototype, its
  \<^verbatim>\<open>socket\<close> is undefined, and that is what is returned.
\<close>

definition getSpotifySocket :: "store option \<Rightarrow> string option \<Rightarrow> ws option" where
  "getSpotifySocket st accountId =
     (case st of
        None \<Rightarrow> None
      | Some s \<Rightarrow>
          (case (case activeSocketAndDevice s of
                   Some (a, sock) \<Rightarrow> if Some a = accountId then Some sock else None
                 | None \<Rightarrow> None) of
             Some sock \<Rightarrow> Some sock
           | None \<Rightarrow>
               (case map_of (accounts s) (property_key accountId) of
                  Some acc \<Rightarrow> Some (acc_socket acc)
                | None \<Rightarrow>
                    (if inherited (property_key accountId) then None
                     else (case activeSocketAndDevice s of
                             Some (a, sock) \<Rightarrow> Some sock
                           | None \<Rightarrow>
                               (case accounts s of
                                  [] \<Rightarrow> None
                                | (k, acc) # _ \<Rightarrow> Some (acc_socket acc)))))))"

definition getAllSpotifySockets :: "store option \<Rightarrow> (string \<times> ws) list option" where
  "getAllSpotifySockets st =
     (case st of
        None \<Rightarrow> None
      | Some s \<Rightarrow>
          (if accounts s = [] then None
           else Some (map (\<lambda>(accountId, acc). (accountId, acc_socket acc)) (accounts s))))"

text \<open>
  The tiers of the fallback, each on its own, and the two ways of chaining them:
  as the specification words the third tier, and as the code runs it.
\<close>

definition orElse :: "'a option \<Rightarrow> 'a option \<Rightarrow> 'a option" where
  "orElse x y = (case x of Some v \<Rightarrow> Some v | None \<Rightarrow> y)"

definition tier_active_filtered :: "store \<Rightarrow> string option \<Rightarrow> ws option" where
  "tier_active_filtered s accountId =
     (case activeSocketAndDevice s of
        Some (a, sock) \<Rightarrow> if Some a = accountId then Some sock else None
      | None \<Rightarrow> None)"

definition tier_registry :: "store \<Rightarrow> string option \<Rightarrow> ws option" where
  "tier_registry s accountId = map_option acc_socket (map_of (accounts s) (property_key accountId))"

definition tier_active_unfiltered :: "store \<Rightarrow> ws option" where
  "tier_active_unfiltered s = map_option snd (activeSocketAndDevice s)"

definition tier_first_entry :: "store \<Rightarrow> ws option" where
  "tier_first_entry s = (case accounts s of [] \<Rightarrow> None | (k, acc) # _ \<Rightarrow> Some (acc_socket acc))"

text \<open>
  The specification's words: third, if the account id is absent, the host's active
  socket unfiltered, else the first entry of the registry.
\<close>

definition resolveSocket_spec :: "store \<Rightarrow> string option \<Rightarrow> ws option" where
  "resolveSocket_spec s accountId =
     orElse (tier_active_filtered s accountId)
       (orElse (tier_registry s accountId)
          (if accountId = None then tier_active_unfiltered s else tier_first_entry s))"

text \<open>
  The third tier as the code has it: the host's active socket unfiltered whenever
  there is one, else the first entry of the registry.
\<close>

definition resolveSocket_tiers :: "store \<Rightarrow> string option \<Rightarrow> ws option" where
  "resolveSocket_tiers s accountId =
     orElse (tier_active_filtered s accountId)
       (orElse (tier_registry s accountId)
          (orElse (tier_active_unfiltered s) (tier_first_entry s)))"

section \<open>SpotifyWatcher\<close>

text \<open>
  The handlers a watcher hands to the host: to the dispatch bus and to the
  connections. Each pong closure made by \<^verbatim>\<open>addPongEvent\<close> is a function of its own:
  it is known by its account id and by the number of closures made before it.
\<close>

datatype dhandler = REGISTER_PONG_EVENT_handler | SPOTIFY_UPDATE_handler

datatype dcall = Subscribe string dhandler | Unsubscribe string dhandler

datatype wshandler = SPOTIFY_WEBSOCKET_MESSAGE_handler | PongHandler string nat

datatype level = LogError | LogWarn

type_synonym logentry = "level \<times> string \<times> string list"

record socket_handle =
  sh_accountId :: string
  sh_ws :: "ws option"

text \<open>
  The private fields of the class and the inherited \<^verbatim>\<open>_events\<close>
  (\<^verbatim>\<open>#modalAnimations\<close>, which no method reads, is left out); then what the watcher
  does to the world around it: the events it has emitted, the number of pong
  closures it has made, the host module and whether the host has a dispatcher,
  the calls the dispatcher has received, the message listeners this class has on
  the connections, and the log. \<open>dispatcher\<close> tells whether \<^verbatim>\<open>this.dispatcher\<close> is
  set.

  An \<^verbatim>\<open>async\<close> method is run to its end where it is called: no other event is
  delivered while it awaits.
\<close>

record SpotifyWatcher =
  events :: events
  priv_accountId :: string
  dispatcher :: bool
  priv_devices :: jsval
  priv_state :: jsval
  priv_sockets :: "(string \<times> ws) list option"
  priv_socketsPongHandlers :: "string \<rightharpoonup> wshandler"
  priv_socket :: socket_handle
  priv_registered :: bool
  priv_pongListenerRegistered :: bool
  emitted :: "(string \<times> jsarg list) list"
  closures :: nat
  env_store :: "store option"
  env_fluxDispatcher :: bool
  env_dispatcher_calls :: "dcall list"
  env_listeners :: "(ws \<times> wshandler) list"
  env_log :: "logentry list"

text \<open>The constructor, in a host with the given module and dispatcher.\<close>

definition SpotifyWatcher_new :: "store option \<Rightarrow> bool \<Rightarrow> SpotifyWatcher" where
  "SpotifyWatcher_new st fd =
     \<lparr> events = EventEmitter_new,
       priv_accountId = [],
       dispatcher = False,
       priv_devices = Undefined,
       priv_state = Undefined,
       priv_sockets = None,
       priv_socketsPongHandlers = Map.empty,
       priv_socket = \<lparr> sh_accountId = [], sh_ws = None \<rparr>,
       priv_registered = False,
       priv_pongListenerRegistered = False,
       emitted = [],
       closures = 0,
       env_store = st,
       env_fluxDispatcher = fd,
       env_dispatcher_calls = [],
       env_listeners = [],
       env_log = [] \<rparr>"

text \<open>\<^verbatim>\<open>this.emit\<close>: the emission is recorded; an exception of a listener propagates.\<close>

definition emitW :: "throws \<Rightarrow> SpotifyWatcher \<Rightarrow> string \<Rightarrow> jsarg list \<Rightarrow> SpotifyWatcher \<times> error option" where
  "emitW throws w name data =
     (w\<lparr>emitted := emitted w @ [(name, data)]\<rparr>, snd (emit throws (events w) name data))"

definition log_to :: "SpotifyWatcher \<Rightarrow> logentry \<Rightarrow> SpotifyWatcher" where
  "log_to w e = w\<lparr>env_log := env_log w @ [e]\<rparr>"

text \<open>\<^verbatim>\<open>addEventListener("message", h)\<close> and \<^verbatim>\<open>removeEventListener("message", h)\<close> of a connection.\<close>

definition addEventListener :: "SpotifyWatcher \<Rightarrow> ws \<Rightarrow> wshandler \<Rightarrow> SpotifyWatcher" where
  "addEventListener w sock h =
     w\<lparr>env_listeners :=
         (if (sock, h) \<in> set (env_listeners w) then env_listeners w
          else env_listeners w @ [(sock, h)])\<rparr>"

definition removeEventListener :: "SpotifyWatcher \<Rightarrow> ws \<Rightarrow> wshandler \<Rightarrow> SpotifyWatcher" where
  "removeEventListener w sock h = w\<lparr>env_listeners := removeAll (sock, h) (env_listeners w)\<rparr>"

definition dispatcher_call :: "SpotifyWatcher \<Rightarrow> dcall \<Rightarrow> SpotifyWatcher" where
  "dispatcher_call w c = w\<lparr>env_dispatcher_calls := env_dispatcher_calls w @ [c]\<rparr>"

text \<open>The getters. \<^verbatim>\<open>socket\<close> builds a new object from the fields of \<^verbatim>\<open>#socket\<close>.\<close>

definition get_registered :: "SpotifyWatcher \<Rightarrow> bool" where
  "get_registered w = priv_registered w"

definition get_state :: "SpotifyWatcher \<Rightarrow> jsval" where
  "get_state w = (if priv_state w = Undefined \<or> priv_state w = Null then Obj [] else priv_state w)"


definition get_accountId :: "SpotifyWatcher \<Rightarrow> string" where
  "get_accountId w = priv_accountId w"

definition get_socket :: "SpotifyWatcher \<Rightarrow> socket_handle" where
  "get_socket w = \<lparr> sh_accountId = sh_accountId (priv_socket w), sh_ws = sh_ws (priv_socket w) \<rparr>"

text \<open>
  \<^verbatim>\<open>#afterSpotifyUpdate\<close>. The two assignments \<^verbatim>\<open>this.socket.accountId = ...\<close> and
  \<^verbatim>\<open>this.socket.ws = await getSpotifySocket(...)\<close> write into the object the getter
  has just built (\<open>assigned_accountId\<close>, \<open>assigned_ws\<close>), which nothing keeps:
  \<^verbatim>\<open>#socket\<close> is as before, and the test that follows reads it through the getter
  again.
\<close>

definition afterSpotifyUpdate :: "throws \<Rightarrow> SpotifyWatcher \<Rightarrow> SpotifyWatcher \<times> error option" where
  "afterSpotifyUpdate throws w =
     (case (if sh_ws (get_socket w) \<noteq> None \<and> sh_accountId (get_socket w) \<noteq> priv_accountId w
            then (case sh_ws (get_socket w) of
                    Some sock \<Rightarrow> Some (removeEventListener w sock SPOTIFY_WEBSOCKET_MESSAGE_handler)
                  | None \<Rightarrow> Some w)
            else if sh_ws (get_socket w) \<noteq> None \<and> sh_accountId (get_socket w) = priv_accountId w
            then None
            else Some w) of
        None \<Rightarrow> (w, None)
      | Some w1 \<Rightarrow>
          (let assigned_accountId = (get_socket w1)\<lparr>sh_accountId := priv_accountId w1\<rparr>;
               assigned_ws = (get_socket w1)\<lparr>sh_ws := getSpotifySocket (env_store w1) (Some (priv_accountId w1))\<rparr>
           in (case sh_ws (get_socket w1) of
                 Some sock \<Rightarrow>
                   emitW throws (addEventListener w1 sock SPOTIFY_WEBSOCKET_MESSAGE_handler)
                     ''websocket'' [Sock sock]
               | None \<Rightarrow> emitW throws w1 ''error'' [JS (Str ''websocket'')])))"

text \<open>
  \<^verbatim>\<open>handlers.SPOTIFY_UPDATE\<close>. The call of \<^verbatim>\<open>#afterSpotifyUpdate\<close> is not awaited: what
  it throws rejects its promise and does not reach the caller of the handler.
\<close>

definition SPOTIFY_UPDATE :: "throws \<Rightarrow> SpotifyWatcher \<Rightarrow> string \<Rightarrow> SpotifyWatcher \<times> error option" where
  "SPOTIFY_UPDATE throws w data_accountId =
     (let w1 = (if priv_accountId w = [] then w\<lparr>priv_accountId := data_accountId\<rparr> else w)
      in if priv_accountId w1 \<noteq> data_accountId
         then (log_to w1
                 (LogError, ''SpotifyWatcher@SPOTIFY_UPDATE'',
                  [''New account ID'', ''('' @ data_accountId @ '')'',
                   ''differs from registered account ID'', ''('' @ priv_accountId w1 @ ''),'',
                   ''change ignored'']),
               None)
         else (case emitW throws w1 ''update'' [JS (Str data_accountId), JS (Str (priv_accountId w1))] of
                 (w2, Some e) \<Rightarrow> (w2, Some e)
               | (w2, None) \<Rightarrow> (fst (afterSpotifyUpdate throws w2), None)))"



text \<open>
  \<^verbatim>\<open>addPongEvent\<close>; calling \<^verbatim>\<open>subscribe\<close> on an undefined dispatcher is a TypeError.
  \<^verbatim>\<open>this.#socketsPongHandlers[accountId]\<close> is undefined when the table has no such
  property of its own and the account id is not an inherited name.
\<close>

definition addPongHandler :: "SpotifyWatcher \<Rightarrow> string \<times> ws \<Rightarrow> SpotifyWatcher" where
  "addPongHandler w entry =
     (case entry of (account_id, sock) \<Rightarrow>
        (if priv_socketsPongHandlers w account_id = None \<and> \<not> inherited account_id
         then (let h = PongHandler account_id (closures w)
               in addEventListener
                    (w\<lparr>priv_socketsPongHandlers := (priv_socketsPongHandlers w)(account_id \<mapsto> h),
                       closures := closures w + 1\<rparr>)
                    sock h)
         else w))"

definition addPongEvent :: "SpotifyWatcher \<Rightarrow> SpotifyWatcher \<times> error option" where
  "addPongEvent w0 =
     (let w = w0\<lparr>priv_sockets := getAllSpotifySockets (env_store w0)\<rparr>
      in (case priv_sockets w of
            Some sockets \<Rightarrow> (foldl addPongHandler w sockets, None)
          | None \<Rightarrow>
              (if \<not> priv_pongListenerRegistered w
               then (if dispatcher w
                     then ((dispatcher_call w (Subscribe ''SPOTIFY_PROFILE_UPDATE'' REGISTER_PONG_EVENT_handler))
                             \<lparr>priv_pongListenerRegistered := True\<rparr>, None)
                     else (w, Some TypeError))
               else (w, None))))"

text \<open>
  \<^verbatim>\<open>handlers.REGISTER_PONG_EVENT\<close>: \<^verbatim>\<open>addPongEvent\<close> is called and not awaited, so the
  \<^verbatim>\<open>unsubscribe\<close> (of another event name than the one subscribed) runs before the
  body of \<^verbatim>\<open>addPongEvent\<close> resumes, and only its own TypeError reaches the caller.
\<close>

definition REGISTER_PONG_EVENT :: "SpotifyWatcher \<Rightarrow> SpotifyWatcher \<times> error option" where
  "REGISTER_PONG_EVENT w =
     (if dispatcher w
      then (fst (addPongEvent
                   (dispatcher_call w (Unsubscribe ''GAMES_DATABASE_UPDATE'' REGISTER_PONG_EVENT_handler))),
            None)
      else (fst (addPongEvent w), Some TypeError))"



definition update_events :: "string list" where
  "update_events =
     [''SPOTIFY_PROFILE_UPDATE'', ''SPOTIFY_SET_DEVICES'', ''SPOTIFY_ACCOUNT_ACCESS_TOKEN'',
      ''SPOTIFY_SET_ACTIVE_DEVICES'', ''SPOTIFY_PLAYER_STATE'']"

definition registerFlux :: "throws \<Rightarrow> SpotifyWatcher \<Rightarrow> SpotifyWatcher \<times> error option" where
  "registerFlux throws w0 =
     (let w = w0\<lparr>dispatcher := env_fluxDispatcher w0\<rparr>
      in if \<not> dispatcher w
         then (log_to w (LogError, ''SpotifyWatcher@registerFlux'', [''FluxDispatcher not found'']), None)
         else if get_registered w
         then (log_to w (LogWarn, ''SpotifyWatcher@registerFlux'', [''Already registered'']), None)
         else emitW throws
                ((foldl (\<lambda>v n. dispatcher_call v (Subscribe n SPOTIFY_UPDATE_handler)) w update_events)
                   \<lparr>priv_registered := True\<rparr>)
                ''registered'' [])"



section \<open>Realtime messages\<close>

text \<open>
  \<^verbatim>\<open>JSON.parse\<close> belongs to the runtime, not to the repository: the handlers take it
  as a parameter, \<open>None\<close> where it throws its SyntaxError.
\<close>

type_synonym json_parse = "string \<Rightarrow> jsval option"

text \<open>\<^verbatim>\<open>data.payloads[0].events[0]\<close>.\<close>

definition payload_event :: "jsval \<Rightarrow> error + jsval" where
  "payload_event d = bindE (bindE (bindE (dot d ''payloads'') index0) (\<lambda>p. dot p ''events'')) index0"

text \<open>
  \<^verbatim>\<open>handlers.SPOTIFY_WEBSOCKET_MESSAGE\<close>, on \<^verbatim>\<open>message.data\<close>. The decoded value does
  not change, so each of the source's readings of \<^verbatim>\<open>data.payloads[0].events[0].type\<close>
  gives what the first one gave.
\<close>

definition SPOTIFY_WEBSOCKET_MESSAGE ::
    "json_parse \<Rightarrow> throws \<Rightarrow> SpotifyWatcher \<Rightarrow> string \<Rightarrow> SpotifyWatcher \<times> error option" where
  "SPOTIFY_WEBSOCKET_MESSAGE parse throws w message_data =
     (case parse message_data of
        None \<Rightarrow> (w, Some SyntaxError)
      | Some d \<Rightarrow>
          (if truthy (opt_dot d ''type'') \<and> truthy (opt_dot d ''payloads'')
                \<and> get_prop d ''type'' \<noteq> Str ''pong''
           then (case bindE (payload_event d) (\<lambda>e. dot e ''type'') of
                   Inl e \<Rightarrow> (w, Some e)
                 | Inr t \<Rightarrow>
                     (if t = Str ''PLAYER_STATE_CHANGED''
                      then (case bindE (bindE (payload_event d) (\<lambda>e. dot e ''event''))
                                   (\<lambda>x. dot x ''state'') of
                              Inl e \<Rightarrow> (w, Some e)
                            | Inr s \<Rightarrow> emitW throws (w\<lparr>priv_state := s\<rparr>) ''message'' [JS t, JS s])
                      else if t = Str ''DEVICE_STATE_CHANGED''
                      then (case bindE (bindE (payload_event d) (\<lambda>e. dot e ''event''))
                                   (\<lambda>x. dot x ''devices'') of
                              Inl e \<Rightarrow> (w, Some e)
                            | Inr ds \<Rightarrow> emitW throws (w\<lparr>priv_devices := ds\<rparr>) ''message'' [JS t, JS ds])
                      else emitW throws w ''message'' [JS t, JS (priv_devices w)]))
           else (w, None)))"

text \<open>The pong closure \<^verbatim>\<open>addPongEvent\<close> makes for an account id, on \<^verbatim>\<open>message.data\<close>.\<close>

definition socketsPongHandler ::
    "json_parse \<Rightarrow> throws \<Rightarrow> SpotifyWatcher \<Rightarrow> string \<Rightarrow> string \<Rightarrow> SpotifyWatcher \<times> error option" where
  "socketsPongHandler parse throws w account_id message_data =
     (case parse message_data of
        None \<Rightarrow> (w, Some SyntaxError)
      | Some d \<Rightarrow>
          (if truthy (opt_dot d ''type'') \<and> opt_dot d ''type'' = Str ''pong''
           then emitW throws w ''pong'' [JS (Str account_id)]
           else (w, None)))"

subsection \<open>A JSON reader for the examples\<close>

text \<open>
  A reader for JSON texts without fractions, exponents and \<^verbatim>\<open>\u\<close> escapes, to run
  the handlers on concrete messages: on such a text it returns the value
  \<^verbatim>\<open>JSON.parse\<close> returns. The fuel is the length of the text.
\<close>

definition is_ws :: "char \<Rightarrow> bool" where
  "is_ws c = (c = CHR '' '' \<or> c = CHR 0x09 \<or> c = CHR 0x0A \<or> c = CHR 0x0D)"

definition skip_ws :: "string \<Rightarrow> string" where
  "skip_ws s = dropWhile is_ws s"

definition is_digit :: "char \<Rightarrow> bool" where
  "is_digit c = (c \<in> set ''0123456789'')"

definition digit_val :: "char \<Rightarrow> nat" where
  "digit_val c = of_char c - 48"

fun parse_digits :: "nat \<Rightarrow> string \<Rightarrow> nat \<times> string" where
  "parse_digits acc [] = (acc, [])"
| "parse_digits acc (c # cs) =
     (if is_digit c then parse_digits (10 * acc + digit_val c) cs else (acc, c # cs))"

text \<open>An integer literal: \<^verbatim>\<open>0\<close> or a digit sequence not starting with \<^verbatim>\<open>0\<close>.\<close>

definition parse_nat :: "string \<Rightarrow> (nat \<times> string) option" where
  "parse_nat s =
     (case s of
        [] \<Rightarrow> None
      | c # cs \<Rightarrow>
          (if c = CHR ''0'' then Some (0, cs)
           else if is_digit c then Some (parse_digits 0 (c # cs))
           else None))"

definition no_fraction :: "string \<Rightarrow> bool" where
  "no_fraction s = (case s of [] \<Rightarrow> True | c # _ \<Rightarrow> c \<notin> set ''.eE'')"

definition parse_number :: "string \<Rightarrow> (jsval \<times> string) option" where
  "parse_number s =
     (case s of
        [] \<Rightarrow> None
      | c # cs \<Rightarrow>
          (if c = CHR ''-''
           then (case parse_nat cs of
                   Some (n, r) \<Rightarrow> if no_fraction r then Some (Num (- real n), r) else None
                 | None \<Rightarrow> None)
           else (case parse_nat (c # cs) of
                   Some (n, r) \<Rightarrow> if no_fraction r then Some (Num (real n), r) else None
                 | None \<Rightarrow> None)))"

text \<open>The characters of a string literal, after its opening quote.\<close>

definition unescape :: "char \<Rightarrow> char option" where
  "unescape c =
     (if c = CHR 0x22 \<or> c = CHR 0x5C \<or> c = CHR ''/'' then Some c
      else if c = CHR ''n'' then Some (CHR 0x0A)
      else if c = CHR ''t'' then Some (CHR 0x09)
      else if c = CHR ''r'' then Some (CHR 0x0D)
      else if c = CHR ''b'' then Some (CHR 0x08)
      else if c = CHR ''f'' then Some (CHR 0x0C)
      else None)"

fun parse_chars :: "string \<Rightarrow> string \<Rightarrow> (string \<times> string) option" where
  "parse_chars acc [] = None"
| "parse_chars acc [c] = (if c = CHR 0x22 then Some (rev acc, []) else None)"
| "parse_chars acc (c # c' # cs) =
     (if c = CHR 0x22 then Some (rev acc, c' # cs)
      else if c = CHR 0x5C
      then (case unescape c' of None \<Rightarrow> None | Some u \<Rightarrow> parse_chars (u # acc) cs)
      else if (of_char c :: nat) < 32 then None
      else parse_chars (c # acc) (c' # cs))"

fun parse_value :: "nat \<Rightarrow> string \<Rightarrow> (jsval \<times> string) option"
  and parse_elements :: "nat \<Rightarrow> string \<Rightarrow> (jsval list \<times> string) option"
  and parse_members :: "nat \<Rightarrow> string \<Rightarrow> ((string \<times> jsval) list \<times> string) option"
where
  "parse_value 0 s = None"
| "parse_value (Suc n) s =
     (case skip_ws s of
        [] \<Rightarrow> None
      | c # r \<Rightarrow>
          (if c = CHR ''{''
           then (case skip_ws r of
                   [] \<Rightarrow> None
                 | c' # r' \<Rightarrow>
                     (if c' = CHR ''}'' then Some (Obj [], r')
                      else map_option (\<lambda>(kvs, t). (Obj kvs, t)) (parse_members n (c' # r'))))
           else if c = CHR ''[''
           then (case skip_ws r of
                   [] \<Rightarrow> None
                 | c' # r' \<Rightarrow>
                     (if c' = CHR '']'' then Some (Arr [], r')
                      else map_option (\<lambda>(vs, t). (Arr vs, t)) (parse_elements n (c' # r'))))
           else if c = CHR 0x22
           then map_option (\<lambda>(x, t). (Str x, t)) (parse_chars [] r)
           else if take 4 (c # r) = ''true'' then Some (Bool True, drop 4 (c # r))
           else if take 5 (c # r) = ''false'' then Some (Bool False, drop 5 (c # r))
           else if take 4 (c # r) = ''null'' then Some (Null, drop 4 (c # r))
           else parse_number (c # r)))"
| "parse_elements 0 s = None"
| "parse_elements (Suc n) s =
     (case parse_value n s of
        None \<Rightarrow> None
      | Some (v, r) \<Rightarrow>
          (case skip_ws r of
             [] \<Rightarrow> None
           | c # r' \<Rightarrow>
               (if c = CHR '',''
                then map_option (\<lambda>(vs, t). (v # vs, t)) (parse_elements n r')
                else if c = CHR '']'' then Some ([v], r')
                else None)))"
| "parse_members 0 s = None"
| "parse_members (Suc n) s =
     (case skip_ws s of
        [] \<Rightarrow> None
      | c # r \<Rightarrow>
          (if c \<noteq> CHR 0x22 then None
           else (case parse_chars [] r of
                   None \<Rightarrow> None
                 | Some (k, r1) \<Rightarrow>
                     (case skip_ws r1 of
                        [] \<Rightarrow> None
                      | c1 # r2 \<Rightarrow>
                          (if c1 \<noteq> CHR '':'' then None
                           else (case parse_value n r2 of
                                   None \<Rightarrow> None
                                 | Some (v, r3) \<Rightarrow>
                                     (case skip_ws r3 of
                                        [] \<Rightarrow> None
                                      | c3 # r4 \<Rightarrow>
                                          (if c3 = CHR '',''
                                           then map_option (\<lambda>(kvs, t). ((k, v) # kvs, t))
                                                  (parse_members n r4)
                                           else if c3 = CHR ''}'' then Some ([(k, v)], r4)
                                           else None))))))))"

definition JSON_parse :: json_parse where
  "JSON_parse s =
     (case parse_value (Suc (length s)) s of
        None \<Rightarrow> None
      | Some (v, r) \<Rightarrow> if skip_ws r = [] then Some v else None)"

section \<open>Sequences of calls\<close>




text \<open>
  The heartbeat installation, called directly (\<^verbatim>\<open>addPongEvent\<close>) or by the host through
  the readiness handler (\<^verbatim>\<open>handlers.REGISTER_PONG_EVENT\<close>), and a run of such calls.
  The readiness fallback is the subscription of that handler to
  \<^verbatim>\<open>SPOTIFY_PROFILE_UPDATE\<close>; \<open>fallback_subscriptions\<close> counts how often the dispatcher
  has been asked for it.
\<close>

definition heartbeat_call :: "bool \<Rightarrow> SpotifyWatcher \<Rightarrow> SpotifyWatcher" where
  "heartbeat_call through_handler w =
     fst (if through_handler then REGISTER_PONG_EVENT w else addPongEvent w)"

fun heartbeat_calls :: "bool list \<Rightarrow> SpotifyWatcher \<Rightarrow> SpotifyWatcher" where
  "heartbeat_calls [] w = w"
| "heartbeat_calls (c # cs) w = heartbeat_calls cs (heartbeat_call c w)"

definition fallback_subscription :: dcall where
  "fallback_subscription = Subscribe ''SPOTIFY_PROFILE_UPDATE'' REGISTER_PONG_EVENT_handler"

definition fallback_subscriptions :: "SpotifyWatcher \<Rightarrow> nat" where
  "fallback_subscriptions w = count_list (env_dispatcher_calls w) fallback_subscription"

section \<open>Examples\<close>

text \<open>Listeners that never throw.\<close>

definition no_throw :: throws where
  "no_throw h data = False"

text \<open>A host whose active socket belongs to account A while the registry holds account C only.\<close>

definition example_store :: store where
  "example_store =
     \<lparr> activeSocketAndDevice = Some (''A'', 1),
       accounts = [(''C'', \<lparr> accessToken = ''t'', acc_socket = 2 \<rparr>)] \<rparr>"

text \<open>A host with one linked account A, whose connection 7 is the active one.\<close>

definition linked_store :: store where
  "linked_store =
     \<lparr> activeSocketAndDevice = Some (''A'', 7),
       accounts = [(''A'', \<lparr> accessToken = ''t'', acc_socket = 7 \<rparr>)] \<rparr>"

text \<open>
  Watchers: just constructed; bound to the account alice; registered on the
  dispatcher of a host without module; registered and with the heartbeat installed
  in the host of \<open>linked_store\<close>.
\<close>

definition new_watcher :: SpotifyWatcher where
  "new_watcher = SpotifyWatcher_new None False"

definition bound_watcher :: SpotifyWatcher where
  "bound_watcher = (SpotifyWatcher_new None False)\<lparr>priv_accountId := ''alice''\<rparr>"

definition registered_watcher :: SpotifyWatcher where
  "registered_watcher = fst (registerFlux no_throw (SpotifyWatcher_new None True))"




text \<open>The messages of the examples, and what the player-state message decodes to.\<close>

definition garbage_message :: string where
  \<open>garbage_message = ''{"type":"garbage"}''\<close>

definition empty_payloads_message :: string where
  \<open>empty_payloads_message = ''{"type":"message","payloads":[]}''\<close>

definition player_state_message :: string where
  \<open>player_state_message =
     ''{"type":"message","payloads":[{"events":[{"type":"PLAYER_STATE_CHANGED","event":{"state":{"progress_ms":1234,"duration_ms":9999,"repeat_state":"track","shuffle_state":true}}}]}]}''\<close>

definition player_state_payload :: jsval where
  "player_state_payload =
     Obj [(''progress_ms'', Num 1234), (''duration_ms'', Num 9999),
          (''repeat_state'', Str ''track''), (''shuffle_state'', Bool True)]"

definition player_state_event :: jsval where
  "player_state_event =
     Obj [(''type'', Str ''PLAYER_STATE_CHANGED''),
          (''event'', Obj [(''state'', player_state_payload)])]"

definition player_state_decoded :: jsval where
  "player_state_decoded =
     Obj [(''type'', Str ''message''),
          (''payloads'', Arr [Obj [(''events'', Arr [player_state_event])]])]"

section \<open>EventEmitter: theorems\<close>


text \<open>
  C2. The claim: every handler registered with \<^verbatim>\<open>on\<close> for a name, three or more
  included, is invoked by \<^verbatim>\<open>emit\<close>, once, in registration order. The code: the
  third \<^verbatim>\<open>on\<close> finds a \<^verbatim>\<open>Set\<close>, not a function, and overwrites it, so after
  three registrations on a fresh emitter only the third handler is called.
\<close>

theorem C2_third_on_overwrites:
  "on_all EventEmitter_new name [h1, h2, h3] = [name \<mapsto> Fn h3]
   \<and> emit throws (on_all EventEmitter_new name [h1, h2, h3]) name data
       = ([(h3, data)], if throws h3 data then Some (Thrown h3) else None)"
  by (simp add: on_all_def on_def EventEmitter_new_def emit_def)






section \<open>Resolver: theorems\<close>

text \<open>
  C6 as stated fails. With an account id given that is neither the active account nor
  in the registry, the code returns the host's active socket, where the third tier
  of the claim takes the first entry of the registry.
\<close>

theorem C6_counterexample:
  "getSpotifySocket (Some example_store) (Some ''B'') = Some 1
   \<and> resolveSocket_spec example_store (Some ''B'') = Some 2"
  by (simp add: getSpotifySocket_def resolveSocket_spec_def example_store_def property_key_def
      orElse_def tier_active_filtered_def tier_registry_def tier_first_entry_def inherited_def
      Object_prototype_names_def)

text \<open>
  C6, amended. For an account id that is a key of the registry or is not an
  inherited property name, the result of \<^verbatim>\<open>getSpotifySocket\<close> is absent without the
  host module, and else the first success of, in order: the host's active socket if
  it belongs to the requested account; the registry entry of the requested account;
  the host's active socket unfiltered, whether or not an account id was given; the
  first entry of the registry.
\<close>

theorem C6_three_tiers:
  assumes "map_of (accounts s) (property_key accountId) \<noteq> None
           \<or> \<not> inherited (property_key accountId)"
  shows "getSpotifySocket None accountId = None
         \<and> getSpotifySocket (Some s) accountId = resolveSocket_tiers s accountId"
  using assms
  by (auto simp add: getSpotifySocket_def resolveSocket_tiers_def orElse_def tier_active_filtered_def
      tier_registry_def tier_active_unfiltered_def tier_first_entry_def
      split: option.splits list.splits prod.splits)

text \<open>Account B in the host of \<open>example_store\<close>: the third tier gives the active socket.\<close>

theorem C6_three_tiers_witness:
  "\<not> inherited (property_key (Some ''B''))
   \<and> getSpotifySocket (Some example_store) (Some ''B'') = resolveSocket_tiers example_store (Some ''B'')
   \<and> resolveSocket_tiers example_store (Some ''B'') = Some 1"
proof -
  have n: "\<not> inherited (property_key (Some ''B''))"
    by (simp add: inherited_def Object_prototype_names_def property_key_def)
  have h: "map_of (accounts example_store) (property_key (Some ''B'')) \<noteq> None
           \<or> \<not> inherited (property_key (Some ''B''))"
    using n by (rule disjI2)
  have v: "resolveSocket_tiers example_store (Some ''B'') = Some 1"
    by (simp add: resolveSocket_tiers_def example_store_def property_key_def orElse_def
        tier_active_filtered_def tier_registry_def tier_active_unfiltered_def)
  from conjunct2 [OF C6_three_tiers [OF h]] n v show ?thesis by simp
qed

text \<open>
  An inherited name that is not a key of the registry stops the fallback at the
  second tier, with an absent result.
\<close>

lemma getSpotifySocket_inherited_name:
  "getSpotifySocket (Some example_store) (Some ''constructor'') = None"
  by (simp add: getSpotifySocket_def example_store_def property_key_def inherited_def
      Object_prototype_names_def)

section \<open>Update handler: theorems\<close>

text \<open>
  C1. On a watcher bound to a non-empty account id, an update whose account id
  differs only adds an error entry to the log: the bound account id, the socket
  binding, the listeners on the connections and the emitted events are as before,
  and nothing is thrown.
\<close>

theorem C1_mismatch_rejected:
  assumes "priv_accountId w \<noteq> []" and "data_accountId \<noteq> priv_accountId w"
  shows "SPOTIFY_UPDATE throws w data_accountId =
           (w\<lparr>env_log := env_log w @
                 [(LogError, ''SpotifyWatcher@SPOTIFY_UPDATE'',
                   [''New account ID'', ''('' @ data_accountId @ '')'',
                    ''differs from registered account ID'', ''('' @ priv_accountId w @ ''),'',
                    ''change ignored''])]\<rparr>, None)
         \<and> get_accountId (fst (SPOTIFY_UPDATE throws w data_accountId)) = get_accountId w
         \<and> get_socket (fst (SPOTIFY_UPDATE throws w data_accountId)) = get_socket w
         \<and> env_listeners (fst (SPOTIFY_UPDATE throws w data_accountId)) = env_listeners w
         \<and> emitted (fst (SPOTIFY_UPDATE throws w data_accountId)) = emitted w"
  using assms by (simp add: SPOTIFY_UPDATE_def log_to_def get_accountId_def get_socket_def)

text \<open>The watcher bound to alice receives an update for bob.\<close>

theorem C1_mismatch_rejected_witness:
  "priv_accountId bound_watcher \<noteq> [] \<and> ''bob'' \<noteq> priv_accountId bound_watcher
   \<and> get_accountId (fst (SPOTIFY_UPDATE no_throw bound_watcher ''bob'')) = ''alice''
   \<and> emitted (fst (SPOTIFY_UPDATE no_throw bound_watcher ''bob'')) = []
   \<and> snd (SPOTIFY_UPDATE no_throw bound_watcher ''bob'') = None"
proof -
  have h1: "priv_accountId bound_watcher \<noteq> []"
    by (simp add: bound_watcher_def SpotifyWatcher_new_def)
  have h2: "''bob'' \<noteq> priv_accountId bound_watcher"
    by (simp add: bound_watcher_def SpotifyWatcher_new_def)
  have e: "emitted bound_watcher = []" "get_accountId bound_watcher = ''alice''"
    by (simp_all add: bound_watcher_def SpotifyWatcher_new_def get_accountId_def)
  note r = C1_mismatch_rejected [OF h1 h2, of no_throw]
  from r have a: "get_accountId (fst (SPOTIFY_UPDATE no_throw bound_watcher ''bob''))
      = get_accountId bound_watcher"
    by blast
  from r have b: "emitted (fst (SPOTIFY_UPDATE no_throw bound_watcher ''bob''))
      = emitted bound_watcher"
    by blast
  have c: "snd (SPOTIFY_UPDATE no_throw bound_watcher ''bob'') = None"
    using arg_cong [OF conjunct1 [OF r], of snd] by simp
  show ?thesis using a b c h1 h2 e by simp
qed

text \<open>
  C3. The claim: with no socket bound and a socket resolvable for the account, the
  update handler attaches a message listener and emits \<^verbatim>\<open>websocket\<close>. The code: the
  resolved socket is assigned to the object the \<^verbatim>\<open>socket\<close> getter returns, never to
  \<^verbatim>\<open>#socket\<close>; on a new watcher, with the socket of account A resolvable, the update
  for A emits \<^verbatim>\<open>update\<close> and then \<^verbatim>\<open>error\<close> with the tag \<^verbatim>\<open>websocket\<close>, and no listener
  is attached. No update ever changes \<^verbatim>\<open>#socket\<close>.
\<close>

theorem C3_resolved_socket_never_bound:
  "getSpotifySocket (Some linked_store) (Some ''A'') = Some 7
   \<and> SPOTIFY_UPDATE throws (SpotifyWatcher_new (Some linked_store) True) ''A''
       = ((SpotifyWatcher_new (Some linked_store) True)
            \<lparr>priv_accountId := ''A'',
             emitted := [(''update'', [JS (Str ''A''), JS (Str ''A'')]),
                         (''error'', [JS (Str ''websocket'')])]\<rparr>, None)
   \<and> env_listeners (fst (SPOTIFY_UPDATE throws (SpotifyWatcher_new (Some linked_store) True) ''A'')) = []
   \<and> priv_socket (fst (SPOTIFY_UPDATE throws w a)) = priv_socket w"
  apply (intro conjI)
     apply (simp add: getSpotifySocket_def linked_store_def)
    apply (simp add: SPOTIFY_UPDATE_def SpotifyWatcher_new_def emitW_def emit_def EventEmitter_new_def
      afterSpotifyUpdate_def get_socket_def)
   apply (simp add: SPOTIFY_UPDATE_def SpotifyWatcher_new_def emitW_def emit_def EventEmitter_new_def
      afterSpotifyUpdate_def get_socket_def)
  apply (simp add: SPOTIFY_UPDATE_def emitW_def afterSpotifyUpdate_def get_socket_def log_to_def Let_def
      addEventListener_def removeEventListener_def split: option.splits prod.splits)
  done

section \<open>Realtime messages: theorems\<close>

lemma JSON_parse_garbage: "JSON_parse garbage_message = Some (Obj [(''type'', Str ''garbage'')])"
  by (simp add: JSON_parse_def garbage_message_def skip_ws_def is_ws_def unescape_def)

lemma JSON_parse_undecodable: "JSON_parse ''not json'' = None"
  by (simp add: JSON_parse_def skip_ws_def is_ws_def parse_number_def parse_nat_def is_digit_def)

lemma JSON_parse_empty_payloads:
  "JSON_parse empty_payloads_message = Some (Obj [(''type'', Str ''message''), (''payloads'', Arr [])])"
  by (simp add: JSON_parse_def empty_payloads_message_def skip_ws_def is_ws_def unescape_def)

lemma JSON_parse_player_state: "JSON_parse player_state_message = Some player_state_decoded"
  by (simp add: JSON_parse_def player_state_message_def player_state_decoded_def player_state_event_def
      player_state_payload_def skip_ws_def is_ws_def parse_number_def parse_nat_def no_fraction_def
      is_digit_def digit_val_def unescape_def)

text \<open>
  C4 as stated fails. On a text that is not JSON both handlers throw the SyntaxError
  of \<^verbatim>\<open>JSON.parse\<close>; on a message with a type and an empty \<^verbatim>\<open>payloads\<close> array the
  message handler throws a TypeError, reading \<^verbatim>\<open>events\<close> of \<^verbatim>\<open>undefined\<close>.
\<close>

theorem C4_counterexample:
  "SPOTIFY_WEBSOCKET_MESSAGE JSON_parse no_throw new_watcher ''not json'' = (new_watcher, Some SyntaxError)
   \<and> socketsPongHandler JSON_parse no_throw new_watcher ''A'' ''not json'' = (new_watcher, Some SyntaxError)
   \<and> SPOTIFY_WEBSOCKET_MESSAGE JSON_parse no_throw new_watcher empty_payloads_message
       = (new_watcher, Some TypeError)"
proof (intro conjI)
  show "SPOTIFY_WEBSOCKET_MESSAGE JSON_parse no_throw new_watcher ''not json'' = (new_watcher, Some SyntaxError)"
    by (simp add: SPOTIFY_WEBSOCKET_MESSAGE_def JSON_parse_undecodable)
  show "socketsPongHandler JSON_parse no_throw new_watcher ''A'' ''not json'' = (new_watcher, Some SyntaxError)"
    by (simp add: socketsPongHandler_def JSON_parse_undecodable)
  show "SPOTIFY_WEBSOCKET_MESSAGE JSON_parse no_throw new_watcher empty_payloads_message
       = (new_watcher, Some TypeError)"
    by (simp add: SPOTIFY_WEBSOCKET_MESSAGE_def JSON_parse_empty_payloads opt_dot_def
        payload_event_def bindE_def)
qed

text \<open>
  C4, amended. For every message whose text decodes as JSON to a value whose
  \<^verbatim>\<open>type\<close> or \<^verbatim>\<open>payloads\<close> is missing or falsy, the message handler emits no event,
  changes no state and throws nothing; and so does the pong handler when the
  decoded type is not \<^verbatim>\<open>pong\<close>.
\<close>

theorem C4_untyped_message_dropped:
  assumes "parse message_data = Some d"
    and "\<not> truthy (get_prop d ''type'') \<or> \<not> truthy (get_prop d ''payloads'')"
  shows "SPOTIFY_WEBSOCKET_MESSAGE parse throws w message_data = (w, None)
         \<and> (get_prop d ''type'' \<noteq> Str ''pong'' \<longrightarrow>
              socketsPongHandler parse throws w account_id message_data = (w, None))"
  using assms by (auto simp add: SPOTIFY_WEBSOCKET_MESSAGE_def socketsPongHandler_def opt_dot_def)

text \<open>The message \<^verbatim>\<open>{"type":"garbage"}\<close>, on a new watcher.\<close>

theorem C4_untyped_message_dropped_witness:
  "SPOTIFY_WEBSOCKET_MESSAGE JSON_parse no_throw new_watcher garbage_message = (new_watcher, None)
   \<and> socketsPongHandler JSON_parse no_throw new_watcher ''A'' garbage_message = (new_watcher, None)"
proof -
  have h: "\<not> truthy (get_prop (Obj [(''type'', Str ''garbage'')]) ''type'')
             \<or> \<not> truthy (get_prop (Obj [(''type'', Str ''garbage'')]) ''payloads'')"
    by simp
  have p: "get_prop (Obj [(''type'', Str ''garbage'')]) ''type'' \<noteq> Str ''pong''"
    by simp
  note r = C4_untyped_message_dropped
    [where parse = JSON_parse and message_data = garbage_message and throws = no_throw
       and w = new_watcher and account_id = "''A''", OF JSON_parse_garbage h]
  show ?thesis
    using conjunct1 [OF r] mp [OF conjunct2 [OF r] p] by (rule conjI)
qed

text \<open>
  C9. A message that decodes to a value with a truthy type other than \<^verbatim>\<open>pong\<close> and
  with payloads, whose first event of the first payload has the type
  \<^verbatim>\<open>PLAYER_STATE_CHANGED\<close> and carries a state with \<^verbatim>\<open>progress_ms\<close> 1234,
  \<^verbatim>\<open>duration_ms\<close> 9999, \<^verbatim>\<open>repeat_state\<close> \<^verbatim>\<open>track\<close> and \<^verbatim>\<open>shuffle_state\<close> true: the
  handler stores that state as \<^verbatim>\<open>#state\<close> and emits \<^verbatim>\<open>message\<close> with the type and that
  same state, which the getter \<^verbatim>\<open>state\<close> returns from then on, with those four
  values.
\<close>

theorem C9_player_state_round_trip:
  assumes "parse message_data = Some d"
    and "truthy (get_prop d ''type'')" and "get_prop d ''type'' \<noteq> Str ''pong''"
    and "truthy (get_prop d ''payloads'')"
    and "payload_event d = Inr ev"
    and "dot ev ''type'' = Inr (Str ''PLAYER_STATE_CHANGED'')"
    and "bindE (dot ev ''event'') (\<lambda>x. dot x ''state'') = Inr st"
    and "get_prop st ''progress_ms'' = Num 1234" and "get_prop st ''duration_ms'' = Num 9999"
    and "get_prop st ''repeat_state'' = Str ''track''" and "get_prop st ''shuffle_state'' = Bool True"
  shows "fst (SPOTIFY_WEBSOCKET_MESSAGE parse throws w message_data)
           = w\<lparr>priv_state := st,
                emitted := emitted w @ [(''message'', [JS (Str ''PLAYER_STATE_CHANGED''), JS st])]\<rparr>
         \<and> get_state (fst (SPOTIFY_WEBSOCKET_MESSAGE parse throws w message_data)) = st
         \<and> get_prop (get_state (fst (SPOTIFY_WEBSOCKET_MESSAGE parse throws w message_data)))
               ''progress_ms'' = Num 1234
         \<and> get_prop (get_state (fst (SPOTIFY_WEBSOCKET_MESSAGE parse throws w message_data)))
               ''duration_ms'' = Num 9999
         \<and> get_prop (get_state (fst (SPOTIFY_WEBSOCKET_MESSAGE parse throws w message_data)))
               ''repeat_state'' = Str ''track''
         \<and> get_prop (get_state (fst (SPOTIFY_WEBSOCKET_MESSAGE parse throws w message_data)))
               ''shuffle_state'' = Bool True"
proof -
  have ne: "st \<noteq> Undefined" "st \<noteq> Null"
    using assms(8) by auto
  have run: "SPOTIFY_WEBSOCKET_MESSAGE parse throws w message_data
      = emitW throws (w\<lparr>priv_state := st\<rparr>) ''message'' [JS (Str ''PLAYER_STATE_CHANGED''), JS st]"
    using assms(1-7) by (simp add: SPOTIFY_WEBSOCKET_MESSAGE_def opt_dot_def bindE_def)
  have stored: "get_state (fst (SPOTIFY_WEBSOCKET_MESSAGE parse throws w message_data)) = st"
    using ne by (simp add: run emitW_def get_state_def)
  show ?thesis
    using assms(8-11) by (simp add: stored) (simp add: run emitW_def)
qed

text \<open>The message of the specification's round trip, decoded by the JSON reader.\<close>

theorem C9_player_state_round_trip_witness:
  "fst (SPOTIFY_WEBSOCKET_MESSAGE JSON_parse no_throw new_watcher player_state_message)
     = new_watcher\<lparr>priv_state := player_state_payload,
         emitted := emitted new_watcher
           @ [(''message'', [JS (Str ''PLAYER_STATE_CHANGED''), JS player_state_payload])]\<rparr>
   \<and> get_state (fst (SPOTIFY_WEBSOCKET_MESSAGE JSON_parse no_throw new_watcher player_state_message))
       = player_state_payload"
proof -
  have h2: "truthy (get_prop player_state_decoded ''type'')"
    by (simp add: player_state_decoded_def)
  have h3: "get_prop player_state_decoded ''type'' \<noteq> Str ''pong''"
    by (simp add: player_state_decoded_def)
  have h4: "truthy (get_prop player_state_decoded ''payloads'')"
    by (simp add: player_state_decoded_def)
  have h5: "payload_event player_state_decoded = Inr player_state_event"
    by (simp add: player_state_decoded_def payload_event_def bindE_def)
  have h6: "dot player_state_event ''type'' = Inr (Str ''PLAYER_STATE_CHANGED'')"
    by (simp add: player_state_event_def)
  have h7: "bindE (dot player_state_event ''event'') (\<lambda>x. dot x ''state'') = Inr player_state_payload"
    by (simp add: player_state_event_def bindE_def)
  have f1: "get_prop player_state_payload ''progress_ms'' = Num 1234"
    by (simp add: player_state_payload_def)
  have f2: "get_prop player_state_payload ''duration_ms'' = Num 9999"
    by (simp add: player_state_payload_def)
  have f3: "get_prop player_state_payload ''repeat_state'' = Str ''track''"
    by (simp add: player_state_payload_def)
  have f4: "get_prop player_state_payload ''shuffle_state'' = Bool True"
    by (simp add: player_state_payload_def)
  note r = C9_player_state_round_trip
      [where parse = JSON_parse and message_data = player_state_message
         and throws = no_throw and w = new_watcher,
       OF JSON_parse_player_state h2 h3 h4 h5 h6 h7 f1 f2 f3 f4]
  show ?thesis
    using conjunct1 [OF r] conjunct1 [OF conjunct2 [OF r]] by (rule conjI)
qed

section \<open>Fields that a call keeps\<close>















section \<open>Lifecycle: theorems\<close>




section \<open>Heartbeat: theorems\<close>

lemma addPongEvent_absent:
  assumes "getAllSpotifySockets (env_store w) = None"
  shows "addPongEvent w =
     (if priv_pongListenerRegistered w then (w\<lparr>priv_sockets := None\<rparr>, None)
      else if dispatcher w
      then (w\<lparr>priv_sockets := None,
               env_dispatcher_calls := env_dispatcher_calls w @ [fallback_subscription],
               priv_pongListenerRegistered := True\<rparr>, None)
      else (w\<lparr>priv_sockets := None\<rparr>, Some TypeError))"
  using assms by (simp add: addPongEvent_def dispatcher_call_def fallback_subscription_def)

lemma heartbeat_call_registered:
  assumes "getAllSpotifySockets (env_store w) = None" and "priv_pongListenerRegistered w"
  shows "fallback_subscriptions (heartbeat_call c w) = fallback_subscriptions w"
    and "priv_pongListenerRegistered (heartbeat_call c w)"
    and "env_store (heartbeat_call c w) = env_store w"
  using assms
  by (simp_all add: heartbeat_call_def REGISTER_PONG_EVENT_def addPongEvent_absent dispatcher_call_def
      fallback_subscriptions_def fallback_subscription_def)

lemma heartbeat_call_first:
  assumes "getAllSpotifySockets (env_store w) = None" and "\<not> priv_pongListenerRegistered w"
    and "dispatcher w"
  shows "fallback_subscriptions (heartbeat_call c w) = fallback_subscriptions w + 1"
    and "priv_pongListenerRegistered (heartbeat_call c w)"
    and "env_store (heartbeat_call c w) = env_store w"
  using assms
  by (simp_all add: heartbeat_call_def REGISTER_PONG_EVENT_def addPongEvent_absent dispatcher_call_def
      fallback_subscriptions_def fallback_subscription_def)

lemma heartbeat_call_no_dispatcher:
  assumes "getAllSpotifySockets (env_store w) = None" and "\<not> priv_pongListenerRegistered w"
    and "\<not> dispatcher w"
  shows "fallback_subscriptions (heartbeat_call c w) = fallback_subscriptions w"
    and "\<not> priv_pongListenerRegistered (heartbeat_call c w)"
    and "\<not> dispatcher (heartbeat_call c w)"
    and "env_store (heartbeat_call c w) = env_store w"
  using assms
  by (simp_all add: heartbeat_call_def REGISTER_PONG_EVENT_def addPongEvent_absent dispatcher_call_def
      fallback_subscriptions_def fallback_subscription_def)

lemma heartbeat_calls_registered:
  "getAllSpotifySockets (env_store w) = None \<Longrightarrow> priv_pongListenerRegistered w \<Longrightarrow>
     fallback_subscriptions (heartbeat_calls cs w) = fallback_subscriptions w
     \<and> priv_pongListenerRegistered (heartbeat_calls cs w)"
proof (induction cs arbitrary: w)
  case Nil
  then show ?case by simp
next
  case (Cons c cs)
  from Cons.prems have "getAllSpotifySockets (env_store (heartbeat_call c w)) = None"
    and "priv_pongListenerRegistered (heartbeat_call c w)"
    and "fallback_subscriptions (heartbeat_call c w) = fallback_subscriptions w"
    by (simp_all add: heartbeat_call_registered)
  with Cons.IH [of "heartbeat_call c w"] show ?case
    by simp
qed

lemma heartbeat_calls_no_dispatcher:
  "getAllSpotifySockets (env_store w) = None \<Longrightarrow> \<not> priv_pongListenerRegistered w \<Longrightarrow>
     \<not> dispatcher w \<Longrightarrow>
     fallback_subscriptions (heartbeat_calls cs w) = fallback_subscriptions w"
proof (induction cs arbitrary: w)
  case Nil
  then show ?case by simp
next
  case (Cons c cs)
  from Cons.prems have "getAllSpotifySockets (env_store (heartbeat_call c w)) = None"
    and "\<not> priv_pongListenerRegistered (heartbeat_call c w)"
    and "\<not> dispatcher (heartbeat_call c w)"
    and "fallback_subscriptions (heartbeat_call c w) = fallback_subscriptions w"
    by (simp_all add: heartbeat_call_no_dispatcher)
  with Cons.IH [of "heartbeat_call c w"] show ?case
    by simp
qed

text \<open>
  C8. While the resolver reports no sockets, any number of calls of the heartbeat
  installation, direct or through the readiness handler, asks the dispatcher for the
  readiness fallback at most once; exactly once, with the flag
  \<^verbatim>\<open>#pongListenerRegistered\<close> set from then on, when there is at least one call, the
  watcher has its dispatcher and the flag was not set before.
\<close>

theorem C8_fallback_installed_once:
  assumes "getAllSpotifySockets (env_store w) = None"
  shows "(dispatcher w \<and> \<not> priv_pongListenerRegistered w \<and> cs \<noteq> [] \<longrightarrow>
            fallback_subscriptions (heartbeat_calls cs w) = fallback_subscriptions w + 1
            \<and> priv_pongListenerRegistered (heartbeat_calls cs w))
         \<and> fallback_subscriptions (heartbeat_calls cs w) \<le> fallback_subscriptions w + 1"
proof -
  have first: "fallback_subscriptions (heartbeat_calls (c # cs') w) = fallback_subscriptions w + 1
      \<and> priv_pongListenerRegistered (heartbeat_calls (c # cs') w)"
    if "dispatcher w" and "\<not> priv_pongListenerRegistered w" for c cs'
  proof -
    from assms that have "getAllSpotifySockets (env_store (heartbeat_call c w)) = None"
      and "priv_pongListenerRegistered (heartbeat_call c w)"
      and "fallback_subscriptions (heartbeat_call c w) = fallback_subscriptions w + 1"
      by (simp_all add: heartbeat_call_first)
    with heartbeat_calls_registered [of "heartbeat_call c w" cs'] show ?thesis
      by simp
  qed
  have bound: "fallback_subscriptions (heartbeat_calls cs w) \<le> fallback_subscriptions w + 1"
  proof (cases "priv_pongListenerRegistered w")
    case True
    with assms heartbeat_calls_registered [of w cs] show ?thesis by simp
  next
    case False
    show ?thesis
    proof (cases "dispatcher w")
      case True
      show ?thesis
      proof (cases cs)
        case Nil
        then show ?thesis by simp
      next
        case (Cons c cs')
        with first [OF True False, of c cs'] show ?thesis by simp
      qed
    next
      case nd: False
      with assms False heartbeat_calls_no_dispatcher [of w cs] show ?thesis by simp
    qed
  qed
  have main: "fallback_subscriptions (heartbeat_calls cs w) = fallback_subscriptions w + 1
      \<and> priv_pongListenerRegistered (heartbeat_calls cs w)"
    if "dispatcher w" and "\<not> priv_pongListenerRegistered w" and "cs \<noteq> []"
  proof -
    from that(3) obtain c cs' where "cs = c # cs'" by (cases cs) auto
    with first [OF that(1) that(2), of c cs'] show ?thesis by simp
  qed
  from main bound show ?thesis by blast
qed

text \<open>
  Four calls, the third through the readiness handler, on a registered watcher in a
  host without module: one fallback subscription.
\<close>

theorem C8_fallback_installed_once_witness:
  "getAllSpotifySockets (env_store registered_watcher) = None
   \<and> fallback_subscriptions registered_watcher = 0
   \<and> fallback_subscriptions (heartbeat_calls [False, False, True, False] registered_watcher) = 1"
proof -
  have h: "getAllSpotifySockets (env_store registered_watcher) = None"
    by (simp add: registered_watcher_def registerFlux_def SpotifyWatcher_new_def emitW_def
        dispatcher_call_def update_events_def get_registered_def getAllSpotifySockets_def)
  have d: "dispatcher registered_watcher"
    by (simp add: registered_watcher_def registerFlux_def SpotifyWatcher_new_def emitW_def
        dispatcher_call_def update_events_def get_registered_def)
  have f: "\<not> priv_pongListenerRegistered registered_watcher"
    by (simp add: registered_watcher_def registerFlux_def SpotifyWatcher_new_def emitW_def
        dispatcher_call_def update_events_def get_registered_def)
  have z: "fallback_subscriptions registered_watcher = 0"
    by (simp add: registered_watcher_def registerFlux_def SpotifyWatcher_new_def emitW_def
        dispatcher_call_def update_events_def get_registered_def fallback_subscriptions_def
        fallback_subscription_def)
  from C8_fallback_installed_once [OF h, of "[False, False, True, False]"] d f z h
  show ?thesis by simp
qed

section \<open>Getters: theorems\<close>


end
